theory Spec2Isabelle
  imports Main
begin

section \<open>JavaScript values\<close>

text \<open>
  Request bodies, upstream response bodies, envelopes and the session variable are
  JavaScript values.  \<open>Undefined\<close> is what a missing property reads as.  Numbers are
  only passed through and tested for being zero, so they are kept as integers.
  An object is the list of its own properties; \<open>JSON.parse\<close> yields distinct keys.
\<close>

datatype jsv =
    Undefined
  | Null
  | Bool bool
  | Num int
  | Str string
  | Arr "jsv list"
  | Obj "(string \<times> jsv) list"

text \<open>Truthiness, as used by \<open>!x\<close>, \<open>x || y\<close>, \<open>x && y\<close> and \<open>if (x)\<close>.\<close>

fun truthy :: "jsv \<Rightarrow> bool" where
  "truthy Undefined = False"
| "truthy Null = False"
| "truthy (Bool b) = b"
| "truthy (Num n) = (n \<noteq> 0)"
| "truthy (Str s) = (s \<noteq> [])"
| "truthy (Arr xs) = True"
| "truthy (Obj kvs) = True"

text \<open>
  Exceptions that reach a \<open>catch\<close> block: a \<open>TypeError\<close> with its message, an axios
  error without a response (timeout, connection error) with its message, an axios
  error carrying the response (status and parsed body) that axios rejected, and the
  error thrown when a reply is written with a status that is not an integer from 100
  to 999, which carries the refused value.
\<close>

datatype js_exn =
    TypeError string
  | AxiosNoResponse string
  | AxiosBadStatus nat jsv
  | StatusCodeError jsv

text \<open>The wording of the engine's message for a property read on \<open>null\<close> or \<open>undefined\<close>.\<close>

definition cannot_read :: "jsv \<Rightarrow> string \<Rightarrow> string" where
  "cannot_read v p =
     ''Cannot read properties of '' @ (if v = Null then ''null'' else ''undefined'')
       @ '' (reading '' @ [CHR 0x27] @ p @ [CHR 0x27] @ '')''"

text \<open>
  Property read \<open>v.p\<close>.  Reading from \<open>null\<close> or \<open>undefined\<close> throws; a primitive or an
  array has none of the property names the handlers read; an object yields its own
  property or \<open>undefined\<close>.
\<close>

fun get_prop :: "jsv \<Rightarrow> string \<Rightarrow> js_exn + jsv" where
  "get_prop Undefined p = Inl (TypeError (cannot_read Undefined p))"
| "get_prop Null p = Inl (TypeError (cannot_read Null p))"
| "get_prop (Obj kvs) p = Inr (case map_of kvs p of None \<Rightarrow> Undefined | Some v \<Rightarrow> v)"
| "get_prop v p = Inr Undefined"

definition bindE :: "'e + 'a \<Rightarrow> ('a \<Rightarrow> 'e + 'b) \<Rightarrow> 'e + 'b" where
  "bindE m f = (case m of Inl e \<Rightarrow> Inl e | Inr x \<Rightarrow> f x)"

text \<open>\<open>a || b\<close> on values already computed.\<close>

definition js_or :: "jsv \<Rightarrow> jsv \<Rightarrow> jsv" where
  "js_or a b = (if truthy a then a else b)"

subsection \<open>String helpers\<close>

text \<open>\<open>s.split(c)\<close> for a one-character separator: never empty, \<open>"".split(c)\<close> is \<open>[""]\<close>.\<close>

fun js_split :: "char \<Rightarrow> string \<Rightarrow> string list" where
  "js_split c [] = [[]]"
| "js_split c (x # xs) =
     (if x = c then [] # js_split c xs
      else (case js_split c xs of [] \<Rightarrow> [[x]] | y # ys \<Rightarrow> (x # y) # ys))"

text \<open>\<open>xs.join(sep)\<close> on an array of strings.\<close>

fun js_join :: "string \<Rightarrow> string list \<Rightarrow> string" where
  "js_join sep [] = []"
| "js_join sep [x] = x"
| "js_join sep (x # y # ys) = x @ sep @ js_join sep (y # ys)"

text \<open>\<open>cookie.split(';')[0]\<close>; index 0 of an empty array would be \<open>undefined\<close>, joined as \<open>""\<close>.\<close>

definition first_piece :: "string \<Rightarrow> string" where
  "first_piece cookie = (case js_split (CHR '';'') cookie of [] \<Rightarrow> [] | y # ys \<Rightarrow> y)"

section \<open>Environment, requests, replies\<close>

text \<open>
  \<open>process.env.API_KEY\<close> and \<open>process.env.ODOO_URL\<close>: a string, or \<open>undefined\<close> when
  the variable is not set.
\<close>

record env =
  API_KEY :: "string option"
  ODOO_URL :: "string option"

text \<open>
  The part of an inbound request the routes read: the \<open>x-api-key\<close> header (a string or
  \<open>undefined\<close>) and the body left by \<open>express.json()\<close>.
\<close>

record request =
  x_api_key :: "string option"
  body :: jsv

text \<open>
  The arguments of one \<open>axios.post\<close> call.  The address is the template literal
  \<open>`${base}/path`\<close>, kept as its two parts; \<open>headers\<close> is the headers object of the
  call; \<open>with_credentials\<close> is \<open>None\<close> where the option is not passed.
\<close>

record upstream_request =
  url_base :: jsv
  url_path :: string
  payload :: jsv
  headers :: "(string \<times> jsv) list"
  with_credentials :: "bool option"
  timeout :: nat

text \<open>
  What the upstream does with a call: an HTTP response (status, the \<open>set-cookie\<close>
  header as the list of its lines when present, the parsed body), or no response.
\<close>

datatype transport =
    Http (status: nat) (set_cookie: "string list option") (data: jsv)
  | Failed (message: string)

text \<open>
  Modelled from the spec: axios is a dependency, not part of the sources.  A non-2xx
  upstream response is a failure (axios rejects with \<open>error.response\<close> set), as is a
  transport failure (axios rejects without a response); a 2xx response resolves.
\<close>

definition axios_post ::
  "(upstream_request \<Rightarrow> transport) \<Rightarrow> upstream_request \<Rightarrow> js_exn + transport" where
  "axios_post upstream r =
     (case upstream r of
        Failed m \<Rightarrow> Inl (AxiosNoResponse m)
      | Http st sc d \<Rightarrow>
          if 200 \<le> st \<and> st < 300 then Inr (Http st sc d) else Inl (AxiosBadStatus st d))"

text \<open>
  What a handler did with \<open>res\<close>: \<open>res.status(s).json(b)\<close> (status 200 when \<open>res.status\<close>
  is not called), or nothing because the handler itself threw.
\<close>

datatype reply =
    Sent jsv jsv
  | Threw js_exn

text \<open>
  The outcome of serving one request: the reply, the upstream calls made, in order,
  and the value of the global \<open>odooSessionCookie\<close> afterwards.
\<close>

record outcome =
  reply :: reply
  calls :: "upstream_request list"
  store :: jsv

section \<open>Access guard (both files)\<close>

text \<open>
  \<open>verifyApiKey\<close>: \<open>Some\<close> the 403 reply, or \<open>None\<close> when \<open>next()\<close> is called.
\<close>

definition verifyApiKey :: "env \<Rightarrow> request \<Rightarrow> reply option" where
  "verifyApiKey e rq =
     (let clientKey = x_api_key rq in
      if (clientKey = None \<or> clientKey = Some []) \<or> clientKey \<noteq> API_KEY e
      then Some (Sent (Num 403) (Obj [(''error'', Str ''Unauthorized: Invalid API key'')]))
      else None)"

text \<open>
  \<open>res.status(code).json(...)\<close> with a computed \<open>code\<close> sends the reply only for an
  integer from 100 to 999; for any other value writing the reply throws (in
  \<open>res.status\<close>, or in Node when the head is written), inside the \<open>try\<close>.  The error
  has no \<open>response\<close>; its message starts with the text below and goes on to name the
  value, of which the fixed part is kept.
\<close>

definition valid_status :: "jsv \<Rightarrow> bool" where
  "valid_status code = (case code of Num n \<Rightarrow> 100 \<le> n \<and> n \<le> 999 | _ \<Rightarrow> False)"

definition invalid_status_code :: string where
  "invalid_status_code = ''Invalid status code''"

text \<open>
  The shape shared by the four \<open>catch\<close> blocks; \<open>d1\<close> and \<open>d2\<close> are the two fallback
  texts.  \<open>error.response.data.error\<close> is read without a guard on \<open>data\<close>.
\<close>

fun catch_block :: "string \<Rightarrow> string \<Rightarrow> js_exn \<Rightarrow> reply" where
  "catch_block d1 d2 (AxiosBadStatus st d) =
     (case get_prop d ''error'' of
        Inl e \<Rightarrow> Threw e
      | Inr v \<Rightarrow> Sent (Num (int st)) (Obj [(''error'', js_or v (Str d1))]))"
| "catch_block d1 d2 (AxiosNoResponse m) =
     Sent (Num 500) (Obj [(''error'', js_or (Str m) (Str d2))])"
| "catch_block d1 d2 (TypeError m) =
     Sent (Num 500) (Obj [(''error'', js_or (Str m) (Str d2))])"
| "catch_block d1 d2 (StatusCodeError c) =
     Sent (Num 500) (Obj [(''error'', js_or (Str invalid_status_code) (Str d2))])"

section \<open>server.js\<close>

definition login_catch_server :: "js_exn \<Rightarrow> reply" where
  "login_catch_server =
     catch_block ''Odoo login API error'' ''Internal Server Error during Odoo login API call''"

definition odoo_catch_server :: "js_exn \<Rightarrow> reply" where
  "odoo_catch_server =
     catch_block ''Odoo API error'' ''Internal Server Error during Odoo API call''"

text \<open>The guard of lines 52-53: \<open>True\<close> when the 400 branch is taken.\<close>

definition config_missing_server :: "jsv \<Rightarrow> js_exn + bool" where
  "config_missing_server b =
     bindE (get_prop b ''odooConfig'') (\<lambda>cfg.
       if \<not> truthy cfg then Inr True else
       bindE (get_prop cfg ''db'') (\<lambda>db.
       if \<not> truthy db then Inr True else
       bindE (get_prop cfg ''username'') (\<lambda>username.
       if \<not> truthy username then Inr True else
       bindE (get_prop cfg ''password'') (\<lambda>password.
       if \<not> truthy password then Inr True else
       bindE (get_prop cfg ''url'') (\<lambda>url.
       Inr (\<not> truthy url))))))"

text \<open>A property of an object known to exist (destructuring after the guard).\<close>

definition field_of :: "jsv \<Rightarrow> string \<Rightarrow> jsv" where
  "field_of v p = (case get_prop v p of Inl e \<Rightarrow> Undefined | Inr x \<Rightarrow> x)"

definition authPayload :: "jsv \<Rightarrow> jsv" where
  "authPayload cfg =
     Obj [(''jsonrpc'', Str ''2.0''),
          (''method'', Str ''call''),
          (''params'', Obj [(''db'', field_of cfg ''db''),
                            (''login'', field_of cfg ''username''),
                            (''password'', field_of cfg ''password'')]),
          (''id'', Num 1)]"

definition login_request_server :: "jsv \<Rightarrow> upstream_request" where
  "login_request_server b =
     (let cfg = field_of b ''odooConfig'' in
      \<lparr>url_base = field_of cfg ''url'',
       url_path = ''/web/session/authenticate'',
       payload = authPayload cfg,
       headers = [(''Content-Type'', Str ''application/json'')],
       with_credentials = Some True,
       timeout = 10000\<rparr>)"

text \<open>Lines 87-94: the session variable after a resolved login call.\<close>

definition capture_server :: "jsv \<Rightarrow> string list option \<Rightarrow> jsv" where
  "capture_server old setCookieHeader =
     (case setCookieHeader of
        Some cookies \<Rightarrow> Str (js_join ''; '' (map first_piece cookies))
      | None \<Rightarrow> old)"

text \<open>Lines 100-107: the reply chosen from the upstream body.\<close>

definition login_result_server :: "jsv \<Rightarrow> js_exn + reply" where
  "login_result_server d =
     bindE (get_prop d ''result'') (\<lambda>result.
     bindE (if truthy result then get_prop result ''uid'' else Inr result) (\<lambda>c.
       if truthy c then
         bindE (get_prop result ''uid'') (\<lambda>uid. Inr (Sent (Num 200) (Obj [(''result'', uid)])))
       else
         bindE (get_prop d ''error'') (\<lambda>err.
           if truthy err then
             bindE (get_prop err ''message'') (\<lambda>msg.
               Inr (Sent (Num 401)
                      (Obj [(''error'', js_or msg (Str ''Odoo authentication failed''))])))
           else Inr (Sent (Num 500) (Obj [(''error'', Str ''Unexpected Odoo login response'')])))))"

definition login_handler_server ::
  "(upstream_request \<Rightarrow> transport) \<Rightarrow> jsv \<Rightarrow> request \<Rightarrow> outcome" where
  "login_handler_server upstream st rq =
     (case config_missing_server (body rq) of
        Inl e \<Rightarrow> \<lparr>reply = login_catch_server e, calls = [], store = st\<rparr>
      | Inr True \<Rightarrow>
          \<lparr>reply = Sent (Num 400)
                     (Obj [(''error'', Str ''Missing Odoo configuration (url, db, username, password)'')]),
           calls = [], store = st\<rparr>
      | Inr False \<Rightarrow>
          (let r = login_request_server (body rq) in
           case axios_post upstream r of
             Inl e \<Rightarrow> \<lparr>reply = login_catch_server e, calls = [r], store = st\<rparr>
           | Inr odooResponse \<Rightarrow>
               \<lparr>reply = (case login_result_server (data odooResponse) of
                           Inl e \<Rightarrow> login_catch_server e
                         | Inr rep \<Rightarrow> rep),
                calls = [r],
                store = capture_server st (set_cookie odooResponse)\<rparr>))"

text \<open>\<open>app.post('/api/login', verifyApiKey, ...)\<close>.\<close>

definition api_login_server ::
  "env \<Rightarrow> (upstream_request \<Rightarrow> transport) \<Rightarrow> jsv \<Rightarrow> request \<Rightarrow> outcome" where
  "api_login_server e upstream st rq =
     (case verifyApiKey e rq of
        Some rep \<Rightarrow> \<lparr>reply = rep, calls = [], store = st\<rparr>
      | None \<Rightarrow> login_handler_server upstream st rq)"

text \<open>The guard of line 128.\<close>

definition url_missing_server :: "jsv \<Rightarrow> js_exn + bool" where
  "url_missing_server b =
     bindE (get_prop b ''odooConfig'') (\<lambda>cfg.
       if \<not> truthy cfg then Inr True else
       bindE (get_prop cfg ''url'') (\<lambda>url. Inr (\<not> truthy url)))"

definition callKwPayload :: "jsv \<Rightarrow> jsv" where
  "callKwPayload b =
     Obj [(''jsonrpc'', Str ''2.0''),
          (''method'', Str ''call''),
          (''params'', Obj [(''model'', field_of b ''model''),
                            (''method'', field_of b ''method''),
                            (''args'', field_of b ''args''),
                            (''kwargs'', field_of b ''kwargs'')]),
          (''id'', Num 1)]"

definition odoo_request_server :: "jsv \<Rightarrow> jsv \<Rightarrow> upstream_request" where
  "odoo_request_server st b =
     \<lparr>url_base = field_of (field_of b ''odooConfig'') ''url'',
      url_path = ''/web/dataset/call_kw'',
      payload = callKwPayload b,
      headers = [(''Content-Type'', Str ''application/json''), (''Cookie'', st)],
      with_credentials = Some True,
      timeout = 10000\<rparr>"

definition odoo_handler_server ::
  "(upstream_request \<Rightarrow> transport) \<Rightarrow> jsv \<Rightarrow> request \<Rightarrow> outcome" where
  "odoo_handler_server upstream st rq =
     (if \<not> truthy st then
        \<lparr>reply = Sent (Num 401)
                   (Obj [(''error'', Str ''Unauthorized: No active Odoo session. Please log in.'')]),
         calls = [], store = st\<rparr>
      else
        (case url_missing_server (body rq) of
           Inl e \<Rightarrow> \<lparr>reply = odoo_catch_server e, calls = [], store = st\<rparr>
         | Inr True \<Rightarrow>
             \<lparr>reply = Sent (Num 400) (Obj [(''error'', Str ''Missing Odoo URL in request body'')]),
              calls = [], store = st\<rparr>
         | Inr False \<Rightarrow>
             (let r = odoo_request_server st (body rq) in
              case axios_post upstream r of
                Inl e \<Rightarrow> \<lparr>reply = odoo_catch_server e, calls = [r], store = st\<rparr>
              | Inr odooResponse \<Rightarrow>
                  \<lparr>reply = Sent (Num 200) (data odooResponse), calls = [r], store = st\<rparr>)))"

text \<open>\<open>app.post('/api/odoo', verifyApiKey, ...)\<close>.\<close>

definition api_odoo_server ::
  "env \<Rightarrow> (upstream_request \<Rightarrow> transport) \<Rightarrow> jsv \<Rightarrow> request \<Rightarrow> outcome" where
  "api_odoo_server e upstream st rq =
     (case verifyApiKey e rq of
        Some rep \<Rightarrow> \<lparr>reply = rep, calls = [], store = st\<rparr>
      | None \<Rightarrow> odoo_handler_server upstream st rq)"

section \<open>unnamed/part_000\<close>

definition login_catch_part000 :: "js_exn \<Rightarrow> reply" where
  "login_catch_part000 =
     catch_block ''Odoo login error'' ''Internal Server Error during login''"

definition odoo_catch_part000 :: "js_exn \<Rightarrow> reply" where
  "odoo_catch_part000 =
     catch_block ''Odoo API error'' ''Internal Server Error during Odoo API call''"

text \<open>\<open>a && a.p\<close>.\<close>

definition and_prop :: "jsv \<Rightarrow> string \<Rightarrow> js_exn + jsv" where
  "and_prop a p = (if truthy a then get_prop a p else Inr a)"

text \<open>The guard of lines 33-34: the address is not among the fields it tests.\<close>

definition config_missing_part000 :: "jsv \<Rightarrow> js_exn + bool" where
  "config_missing_part000 b =
     bindE (get_prop b ''odooConfig'') (\<lambda>cfg.
       if \<not> truthy cfg then Inr True else
       bindE (get_prop cfg ''db'') (\<lambda>db.
       if \<not> truthy db then Inr True else
       bindE (get_prop cfg ''username'') (\<lambda>username.
       if \<not> truthy username then Inr True else
       bindE (get_prop cfg ''password'') (\<lambda>password.
       Inr (\<not> truthy password)))))"

text \<open>\<open>`${ODOO_URL}`\<close>: the variable as a value, \<open>undefined\<close> when it is not set.\<close>

definition odoo_url :: "env \<Rightarrow> jsv" where
  "odoo_url e = (case ODOO_URL e of None \<Rightarrow> Undefined | Some u \<Rightarrow> Str u)"

text \<open>
  \<open>req.body.id || Math.floor(Math.random() * 1000)\<close>; \<open>rnd\<close> is the integer that the
  random draw gives for this request.
\<close>

definition envelope_id :: "jsv \<Rightarrow> int \<Rightarrow> jsv" where
  "envelope_id b rnd = js_or (field_of b ''id'') (Num rnd)"

definition login_request_part000 :: "env \<Rightarrow> int \<Rightarrow> jsv \<Rightarrow> upstream_request" where
  "login_request_part000 e rnd b =
     (let cfg = field_of b ''odooConfig'' in
      \<lparr>url_base = odoo_url e,
       url_path = ''/web/session/authenticate'',
       payload =
         Obj [(''jsonrpc'', Str ''2.0''),
              (''method'', Str ''call''),
              (''params'', Obj [(''db'', field_of cfg ''db''),
                                (''login'', field_of cfg ''username''),
                                (''password'', field_of cfg ''password'')]),
              (''id'', envelope_id b rnd)],
       headers = [(''Content-Type'', Str ''application/json'')],
       with_credentials = None,
       timeout = 10000\<rparr>)"

text \<open>Lines 70-75: the header is stored as it came, an array of cookie lines.\<close>

definition capture_part000 :: "jsv \<Rightarrow> string list option \<Rightarrow> jsv" where
  "capture_part000 old setCookieHeader =
     (case setCookieHeader of
        Some cookies \<Rightarrow> Arr (map Str cookies)
      | None \<Rightarrow> old)"

text \<open>
  Lines 77-87.  In the failure branch \<open>error\<close> is the local constant of line 81, read
  with \<open>error.response\<close> on line 84; the status handed to \<open>res.status\<close> is then
  \<open>error.response.status\<close>, whatever the upstream body holds there, or 500.
\<close>

definition login_result_part000 :: "jsv \<Rightarrow> js_exn + reply" where
  "login_result_part000 d =
     bindE (and_prop d ''result'') (\<lambda>t.
     bindE (if truthy t then bindE (get_prop d ''result'') (\<lambda>result. get_prop result ''uid'')
            else Inr t) (\<lambda>c.
       if truthy c then
         bindE (get_prop d ''result'') (\<lambda>result.
         bindE (get_prop result ''uid'') (\<lambda>uid.
           Inr (Sent (Num 200) (Obj [(''result'', uid)]))))
       else
         bindE (and_prop d ''error'') (\<lambda>error.
         bindE (and_prop error ''message'') (\<lambda>m.
           let errorMsg = js_or m (Str ''Authentication failed'') in
           bindE (get_prop error ''response'') (\<lambda>resp.
           bindE (if truthy resp then get_prop resp ''status'' else Inr (Num 500)) (\<lambda>code.
             if valid_status code then
               Inr (Sent code (Obj [(''error'', Str ''Authentication failed''),
                                    (''details'', errorMsg)]))
             else Inl (StatusCodeError code)))))))"

definition login_handler_part000 ::
  "env \<Rightarrow> (upstream_request \<Rightarrow> transport) \<Rightarrow> int \<Rightarrow> jsv \<Rightarrow> request \<Rightarrow> outcome" where
  "login_handler_part000 e upstream rnd st rq =
     (case config_missing_part000 (body rq) of
        Inl ex \<Rightarrow> \<lparr>reply = login_catch_part000 ex, calls = [], store = st\<rparr>
      | Inr True \<Rightarrow>
          \<lparr>reply = Sent (Num 400) (Obj [(''error'', Str ''Missing required fields for Odoo login'')]),
           calls = [], store = st\<rparr>
      | Inr False \<Rightarrow>
          (let r = login_request_part000 e rnd (body rq) in
           case axios_post upstream r of
             Inl ex \<Rightarrow> \<lparr>reply = login_catch_part000 ex, calls = [r], store = st\<rparr>
           | Inr response \<Rightarrow>
               \<lparr>reply = (case login_result_part000 (data response) of
                           Inl ex \<Rightarrow> login_catch_part000 ex
                         | Inr rep \<Rightarrow> rep),
                calls = [r],
                store = capture_part000 st (set_cookie response)\<rparr>))"

definition api_login_part000 ::
  "env \<Rightarrow> (upstream_request \<Rightarrow> transport) \<Rightarrow> int \<Rightarrow> jsv \<Rightarrow> request \<Rightarrow> outcome" where
  "api_login_part000 e upstream rnd st rq =
     (case verifyApiKey e rq of
        Some rep \<Rightarrow> \<lparr>reply = rep, calls = [], store = st\<rparr>
      | None \<Rightarrow> login_handler_part000 e upstream rnd st rq)"

text \<open>
  Line 104: destructuring \<open>req.body\<close> throws when the body is \<open>null\<close> or \<open>undefined\<close>.
\<close>

definition destructure_body :: "jsv \<Rightarrow> js_exn + jsv" where
  "destructure_body b =
     (if b = Undefined \<or> b = Null then
        Inl (TypeError (''Cannot destructure property '' @ [CHR 0x27] @ ''odooConfig'' @ [CHR 0x27]
               @ '' of '' @ [CHR 0x27] @ ''req.body'' @ [CHR 0x27] @ '' as it is ''
               @ (if b = Null then ''null'' else ''undefined'') @ ''.''))
      else Inr b)"

definition odooPayload :: "jsv \<Rightarrow> int \<Rightarrow> jsv" where
  "odooPayload b rnd =
     Obj [(''jsonrpc'', Str ''2.0''),
          (''method'', Str ''call''),
          (''params'', Obj [(''model'', field_of b ''model''),
                            (''method'', field_of b ''method''),
                            (''args'', field_of b ''args''),
                            (''kwargs'', field_of b ''kwargs'')]),
          (''id'', envelope_id b rnd)]"

text \<open>Lines 132-144: the \<open>Cookie\<close> header is added only for a truthy session variable.\<close>

definition odooHeaders :: "jsv \<Rightarrow> (string \<times> jsv) list" where
  "odooHeaders st =
     [(''Content-Type'', Str ''application/json'')] @ (if truthy st then [(''Cookie'', st)] else [])"

definition odoo_request_part000 :: "env \<Rightarrow> int \<Rightarrow> jsv \<Rightarrow> jsv \<Rightarrow> upstream_request" where
  "odoo_request_part000 e rnd st b =
     \<lparr>url_base = odoo_url e,
      url_path = ''/web/dataset/call_kw'',
      payload = odooPayload b rnd,
      headers = odooHeaders st,
      with_credentials = None,
      timeout = 10000\<rparr>"

definition odoo_handler_part000 ::
  "env \<Rightarrow> (upstream_request \<Rightarrow> transport) \<Rightarrow> int \<Rightarrow> jsv \<Rightarrow> request \<Rightarrow> outcome" where
  "odoo_handler_part000 e upstream rnd st rq =
     (case destructure_body (body rq) of
        Inl ex \<Rightarrow> \<lparr>reply = odoo_catch_part000 ex, calls = [], store = st\<rparr>
      | Inr b \<Rightarrow>
          if \<not> truthy (odoo_url e) then
            \<lparr>reply = Sent (Num 500)
                       (Obj [(''error'', Str ''Server configuration error: Odoo URL not set.'')]),
             calls = [], store = st\<rparr>
          else if \<not> truthy (field_of b ''uid'') then
            \<lparr>reply = Sent (Num 400)
                       (Obj [(''error'', Str ''User ID (UID) is required for Odoo API calls.'')]),
             calls = [], store = st\<rparr>
          else
            (let r = odoo_request_part000 e rnd st b in
             case axios_post upstream r of
               Inl ex \<Rightarrow> \<lparr>reply = odoo_catch_part000 ex, calls = [r], store = st\<rparr>
             | Inr odooResponse \<Rightarrow>
                 \<lparr>reply = Sent (Num 200) (data odooResponse), calls = [r], store = st\<rparr>))"

definition api_odoo_part000 ::
  "env \<Rightarrow> (upstream_request \<Rightarrow> transport) \<Rightarrow> int \<Rightarrow> jsv \<Rightarrow> request \<Rightarrow> outcome" where
  "api_odoo_part000 e upstream rnd st rq =
     (case verifyApiKey e rq of
        Some rep \<Rightarrow> \<lparr>reply = rep, calls = [], store = st\<rparr>
      | None \<Rightarrow> odoo_handler_part000 e upstream rnd st rq)"

section \<open>Notions of the specification\<close>

text \<open>
  The normalisation of a \<open>Set-Cookie\<close> header as the specification words it: each
  cookie is cut at its first \<open>;\<close>, which drops the attributes, and the remaining
  name=value pairs are joined.
\<close>

definition normalize_spec :: "string list \<Rightarrow> string" where
  "normalize_spec cookies = js_join ''; '' (map (takeWhile (\<lambda>c. c \<noteq> CHR '';'')) cookies)"

text \<open>
  The input contract of login as the specification words it: a configuration bundle
  whose required fields are all there and non-empty.  The bundle of \<open>server.js\<close> has
  the target address; that of \<open>part_000\<close> has not, the address being \<open>ODOO_URL\<close>.
\<close>

definition complete_config_server :: "jsv \<Rightarrow> bool" where
  "complete_config_server b \<longleftrightarrow>
     (let cfg = field_of b ''odooConfig'' in
      truthy (field_of cfg ''url'') \<and> truthy (field_of cfg ''db'')
      \<and> truthy (field_of cfg ''username'') \<and> truthy (field_of cfg ''password''))"

definition complete_config_part000 :: "jsv \<Rightarrow> bool" where
  "complete_config_part000 b \<longleftrightarrow>
     (let cfg = field_of b ''odooConfig'' in
      truthy (field_of cfg ''db'')
      \<and> truthy (field_of cfg ''username'') \<and> truthy (field_of cfg ''password''))"

section \<open>Sample inputs\<close>

text \<open>Concrete environments, requests and upstream behaviours used to run the handlers.\<close>

abbreviation sample_env :: env where
  "sample_env \<equiv> \<lparr>API_KEY = Some ''k'', ODOO_URL = Some ''https://odoo.example''\<rparr>"

abbreviation sample_login_server :: request where
  "sample_login_server \<equiv>
     \<lparr>x_api_key = Some ''k'',
      body = Obj [(''odooConfig'', Obj [(''url'', Str ''https://odoo.example''), (''db'', Str ''d''),
                                       (''username'', Str ''u''), (''password'', Str ''p'')])]\<rparr>"

abbreviation sample_login_part000 :: request where
  "sample_login_part000 \<equiv>
     \<lparr>x_api_key = Some ''k'',
      body = Obj [(''odooConfig'', Obj [(''db'', Str ''d''), (''username'', Str ''u''),
                                       (''password'', Str ''p'')]),
                  (''id'', Num 9)]\<rparr>"



abbreviation login_ok :: "upstream_request \<Rightarrow> transport" where
  "login_ok \<equiv> \<lambda>r. Http 200 (Some [''session_id=abc; Path=/'', ''lang=en; HttpOnly''])
                     (Obj [(''result'', Obj [(''uid'', Num 7)])])"

abbreviation login_denied :: "upstream_request \<Rightarrow> transport" where
  "login_denied \<equiv> \<lambda>r. Http 200 None (Obj [(''error'', Obj [(''message'', Str ''Access Denied'')])])"


section \<open>Basic facts\<close>

lemmas eval_defs =
  api_login_server_def api_odoo_server_def api_login_part000_def api_odoo_part000_def
  verifyApiKey_def login_handler_server_def login_handler_part000_def
  odoo_handler_server_def odoo_handler_part000_def
  config_missing_server_def config_missing_part000_def url_missing_server_def
  destructure_body_def bindE_def axios_post_def and_prop_def
  login_request_server_def login_request_part000_def odoo_request_server_def
  odoo_request_part000_def authPayload_def callKwPayload_def odooPayload_def odooHeaders_def
  envelope_id_def odoo_url_def capture_server_def capture_part000_def
  login_result_server_def login_result_part000_def
  login_catch_server_def login_catch_part000_def odoo_catch_server_def odoo_catch_part000_def
  js_or_def field_of_def first_piece_def normalize_spec_def
  complete_config_server_def complete_config_part000_def valid_status_def
  invalid_status_code_def Let_def

lemma truthy_field_ofD:
  "truthy (field_of v p) \<Longrightarrow> \<exists>kvs x. v = Obj kvs \<and> map_of kvs p = Some x \<and> truthy x"
  by (cases v) (auto simp: field_of_def split: option.splits)

lemma get_prop_field_of:
  "v \<noteq> Undefined \<Longrightarrow> v \<noteq> Null \<Longrightarrow> get_prop v p = Inr (field_of v p)"
  by (cases v) (simp_all add: field_of_def)

lemma truthy_not_nullish: "truthy v \<Longrightarrow> v \<noteq> Undefined \<and> v \<noteq> Null"
  by (cases v) simp_all

lemma get_prop_truthy: "truthy v \<Longrightarrow> get_prop v p = Inr (field_of v p)"
  by (simp add: get_prop_field_of truthy_not_nullish)

lemma field_of_nullish: "field_of Undefined p = Undefined" "field_of Null p = Undefined"
  by (simp_all add: field_of_def)

lemma truthy_field_of_parent: "truthy (field_of v p) \<Longrightarrow> truthy v"
  using truthy_field_ofD by fastforce

lemma config_missing_server_eq:
  assumes "b \<noteq> Undefined" "b \<noteq> Null"
  shows "config_missing_server b = Inr (\<not> complete_config_server b)"
proof -
  have b: "get_prop b ''odooConfig'' = Inr (field_of b ''odooConfig'')"
    using assms by (simp add: get_prop_field_of)
  show ?thesis
  proof (cases "truthy (field_of b ''odooConfig'')")
    case True
    then show ?thesis
      by (simp add: config_missing_server_def complete_config_server_def bindE_def b
          get_prop_truthy Let_def)
  next
    case False
    then have "\<not> truthy (field_of (field_of b ''odooConfig'') ''url'')"
      using truthy_field_of_parent by blast
    with False show ?thesis
      by (simp add: config_missing_server_def complete_config_server_def bindE_def b Let_def)
  qed
qed

lemma config_missing_part000_eq:
  assumes "b \<noteq> Undefined" "b \<noteq> Null"
  shows "config_missing_part000 b = Inr (\<not> complete_config_part000 b)"
proof -
  have b: "get_prop b ''odooConfig'' = Inr (field_of b ''odooConfig'')"
    using assms by (simp add: get_prop_field_of)
  show ?thesis
  proof (cases "truthy (field_of b ''odooConfig'')")
    case True
    then show ?thesis
      by (simp add: config_missing_part000_def complete_config_part000_def bindE_def b
          get_prop_truthy Let_def)
  next
    case False
    then have "\<not> truthy (field_of (field_of b ''odooConfig'') ''db'')"
      using truthy_field_of_parent by blast
    with False show ?thesis
      by (simp add: config_missing_part000_def complete_config_part000_def bindE_def b Let_def)
  qed
qed

lemma complete_config_server_body: "complete_config_server b \<Longrightarrow> b \<noteq> Undefined \<and> b \<noteq> Null"
  by (auto simp: complete_config_server_def Let_def field_of_nullish)

lemma complete_config_part000_body: "complete_config_part000 b \<Longrightarrow> b \<noteq> Undefined \<and> b \<noteq> Null"
  by (auto simp: complete_config_part000_def Let_def field_of_nullish)

lemma config_present_server:
  "complete_config_server b \<Longrightarrow> config_missing_server b = Inr False"
  using config_missing_server_eq complete_config_server_body by simp

lemma config_present_part000:
  "complete_config_part000 b \<Longrightarrow> config_missing_part000 b = Inr False"
  using config_missing_part000_eq complete_config_part000_body by simp

text \<open>A login whose guards pass and whose upstream call resolves.\<close>

lemma login_resolved_server:
  assumes "verifyApiKey e rq = None" "complete_config_server (body rq)"
    and "upstream (login_request_server (body rq)) = Http s sc d" "200 \<le> s" "s < 300"
  shows "api_login_server e upstream st rq =
           \<lparr>reply = (case login_result_server d of Inl ex \<Rightarrow> login_catch_server ex | Inr rep \<Rightarrow> rep),
            calls = [login_request_server (body rq)],
            store = capture_server st sc\<rparr>"
  using assms
  by (simp add: api_login_server_def login_handler_server_def config_present_server
      axios_post_def Let_def)

lemma login_resolved_part000:
  assumes "verifyApiKey e rq = None" "complete_config_part000 (body rq)"
    and "upstream (login_request_part000 e rnd (body rq)) = Http s sc d" "200 \<le> s" "s < 300"
  shows "api_login_part000 e upstream rnd st rq =
           \<lparr>reply = (case login_result_part000 d of Inl ex \<Rightarrow> login_catch_part000 ex | Inr rep \<Rightarrow> rep),
            calls = [login_request_part000 e rnd (body rq)],
            store = capture_part000 st sc\<rparr>"
  using assms
  by (simp add: api_login_part000_def login_handler_part000_def config_present_part000
      axios_post_def Let_def)

lemma login_result_server_uid:
  assumes "truthy (field_of (field_of d ''result'') ''uid'')"
  shows "login_result_server d =
           Inr (Sent (Num 200) (Obj [(''result'', field_of (field_of d ''result'') ''uid'')]))"
proof -
  have r: "truthy (field_of d ''result'')" using assms truthy_field_of_parent by blast
  then have "truthy d" using truthy_field_of_parent by blast
  with r assms show ?thesis
    by (simp add: login_result_server_def bindE_def get_prop_truthy)
qed

lemma login_result_part000_uid:
  assumes "truthy (field_of (field_of d ''result'') ''uid'')"
  shows "login_result_part000 d =
           Inr (Sent (Num 200) (Obj [(''result'', field_of (field_of d ''result'') ''uid'')]))"
proof -
  have r: "truthy (field_of d ''result'')" using assms truthy_field_of_parent by blast
  then have "truthy d" using truthy_field_of_parent by blast
  with r assms show ?thesis
    by (simp add: login_result_part000_def bindE_def get_prop_truthy and_prop_def)
qed

lemma login_failure_server:
  assumes "verifyApiKey e rq = None" "complete_config_server (body rq)"
    and "axios_post upstream (login_request_server (body rq)) = Inl ex"
  shows "api_login_server e upstream st rq =
           \<lparr>reply = login_catch_server ex, calls = [login_request_server (body rq)], store = st\<rparr>"
  using assms
  by (simp add: api_login_server_def login_handler_server_def config_present_server Let_def)

lemma login_failure_part000:
  assumes "verifyApiKey e rq = None" "complete_config_part000 (body rq)"
    and "axios_post upstream (login_request_part000 e rnd (body rq)) = Inl ex"
  shows "api_login_part000 e upstream rnd st rq =
           \<lparr>reply = login_catch_part000 ex, calls = [login_request_part000 e rnd (body rq)],
            store = st\<rparr>"
  using assms
  by (simp add: api_login_part000_def login_handler_part000_def config_present_part000 Let_def)

lemma catch_block_no_response:
  "catch_block d1 d2 (AxiosNoResponse m) =
     Sent (Num 500) (Obj [(''error'', Str (if m = [] then d2 else m))])"
  by (simp add: js_or_def)

lemma catch_block_bad_status:
  "d \<noteq> Null \<Longrightarrow> d \<noteq> Undefined \<Longrightarrow>
   catch_block d1 d2 (AxiosBadStatus s d) =
     Sent (Num (int s)) (Obj [(''error'', js_or (field_of d ''error'') (Str d1))])"
  by (simp add: get_prop_field_of)

text \<open>
  A login whose upstream call fails: no response at all, or a non-2xx response whose
  body is not \<open>null\<close>.  The caller gets an error reply, the session variable keeps its
  value, and the upstream is called once.
\<close>

lemma login_failure_handled_server:
  assumes "verifyApiKey e rq = None" "complete_config_server (body rq)"
  shows "upstream (login_request_server (body rq)) = Failed m \<Longrightarrow>
           api_login_server e upstream st rq =
             \<lparr>reply = Sent (Num 500)
                (Obj [(''error'', Str (if m = [] then ''Internal Server Error during Odoo login API call''
                                       else m))]),
              calls = [login_request_server (body rq)], store = st\<rparr>"
    and "upstream (login_request_server (body rq)) = Http s sc d \<Longrightarrow> \<not> (200 \<le> s \<and> s < 300) \<Longrightarrow>
         d \<noteq> Null \<Longrightarrow> d \<noteq> Undefined \<Longrightarrow>
           api_login_server e upstream st rq =
             \<lparr>reply = Sent (Num (int s))
                (Obj [(''error'', js_or (field_of d ''error'') (Str ''Odoo login API error''))]),
              calls = [login_request_server (body rq)], store = st\<rparr>"
proof -
  assume "upstream (login_request_server (body rq)) = Failed m"
  then have "axios_post upstream (login_request_server (body rq)) = Inl (AxiosNoResponse m)"
    by (simp add: axios_post_def)
  from login_failure_server [OF assms this, of st]
  show "api_login_server e upstream st rq =
             \<lparr>reply = Sent (Num 500)
                (Obj [(''error'', Str (if m = [] then ''Internal Server Error during Odoo login API call''
                                       else m))]),
              calls = [login_request_server (body rq)], store = st\<rparr>"
    by (simp only: login_catch_server_def catch_block_no_response)
next
  assume "upstream (login_request_server (body rq)) = Http s sc d" "\<not> (200 \<le> s \<and> s < 300)"
    and d: "d \<noteq> Null" "d \<noteq> Undefined"
  then have "axios_post upstream (login_request_server (body rq)) = Inl (AxiosBadStatus s d)"
    by (simp add: axios_post_def)
  from login_failure_server [OF assms this, of st]
  show "api_login_server e upstream st rq =
             \<lparr>reply = Sent (Num (int s))
                (Obj [(''error'', js_or (field_of d ''error'') (Str ''Odoo login API error''))]),
              calls = [login_request_server (body rq)], store = st\<rparr>"
    by (simp only: login_catch_server_def catch_block_bad_status [OF d])
qed

lemma login_failure_handled_part000:
  assumes "verifyApiKey e rq = None" "complete_config_part000 (body rq)"
  shows "upstream (login_request_part000 e rnd (body rq)) = Failed m \<Longrightarrow>
           api_login_part000 e upstream rnd st rq =
             \<lparr>reply = Sent (Num 500)
                (Obj [(''error'', Str (if m = [] then ''Internal Server Error during login'' else m))]),
              calls = [login_request_part000 e rnd (body rq)], store = st\<rparr>"
    and "upstream (login_request_part000 e rnd (body rq)) = Http s sc d \<Longrightarrow>
         \<not> (200 \<le> s \<and> s < 300) \<Longrightarrow> d \<noteq> Null \<Longrightarrow> d \<noteq> Undefined \<Longrightarrow>
           api_login_part000 e upstream rnd st rq =
             \<lparr>reply = Sent (Num (int s))
                (Obj [(''error'', js_or (field_of d ''error'') (Str ''Odoo login error''))]),
              calls = [login_request_part000 e rnd (body rq)], store = st\<rparr>"
proof -
  assume "upstream (login_request_part000 e rnd (body rq)) = Failed m"
  then have "axios_post upstream (login_request_part000 e rnd (body rq)) = Inl (AxiosNoResponse m)"
    by (simp add: axios_post_def)
  from login_failure_part000 [OF assms this, of st]
  show "api_login_part000 e upstream rnd st rq =
             \<lparr>reply = Sent (Num 500)
                (Obj [(''error'', Str (if m = [] then ''Internal Server Error during login'' else m))]),
              calls = [login_request_part000 e rnd (body rq)], store = st\<rparr>"
    by (simp only: login_catch_part000_def catch_block_no_response)
next
  assume "upstream (login_request_part000 e rnd (body rq)) = Http s sc d"
    "\<not> (200 \<le> s \<and> s < 300)" and d: "d \<noteq> Null" "d \<noteq> Undefined"
  then have "axios_post upstream (login_request_part000 e rnd (body rq)) = Inl (AxiosBadStatus s d)"
    by (simp add: axios_post_def)
  from login_failure_part000 [OF assms this, of st]
  show "api_login_part000 e upstream rnd st rq =
             \<lparr>reply = Sent (Num (int s))
                (Obj [(''error'', js_or (field_of d ''error'') (Str ''Odoo login error''))]),
              calls = [login_request_part000 e rnd (body rq)], store = st\<rparr>"
    by (simp only: login_catch_part000_def catch_block_bad_status [OF d])
qed

lemma login_calls_server:
  assumes "verifyApiKey e rq = None" "complete_config_server (body rq)"
  shows "calls (api_login_server e upstream st rq) = [login_request_server (body rq)]"
  using assms
  by (simp add: api_login_server_def login_handler_server_def config_present_server Let_def
      split: sum.splits)

lemma login_calls_part000:
  assumes "verifyApiKey e rq = None" "complete_config_part000 (body rq)"
  shows "calls (api_login_part000 e upstream rnd st rq) = [login_request_part000 e rnd (body rq)]"
  using assms
  by (simp add: api_login_part000_def login_handler_part000_def config_present_part000 Let_def
      split: sum.splits)

lemma js_split_head: "\<exists>ys. js_split c s = takeWhile (\<lambda>x. x \<noteq> c) s # ys"
  by (induction s) auto

lemma first_piece_takeWhile: "first_piece s = takeWhile (\<lambda>c. c \<noteq> CHR '';'') s"
  using js_split_head [of "CHR '';''" s] by (auto simp: first_piece_def)

lemma capture_server_normalize:
  "capture_server st (Some cookies) = Str (normalize_spec cookies)"
  by (simp add: capture_server_def normalize_spec_def first_piece_takeWhile [abs_def])


lemma api_odoo_part000_called:
  assumes "calls (api_odoo_part000 e upstream rnd st rq) = [r]"
  shows "api_odoo_part000 e upstream rnd st rq =
           \<lparr>reply = (case axios_post upstream r of
                       Inl ex \<Rightarrow> odoo_catch_part000 ex
                     | Inr resp \<Rightarrow> Sent (Num 200) (data resp)),
            calls = [r], store = st\<rparr>"
  using assms
  by (auto simp: api_odoo_part000_def odoo_handler_part000_def Let_def
      split: option.splits sum.splits bool.splits if_splits)

lemma verifyApiKey_reject:
  "x_api_key rq = None \<or> x_api_key rq \<noteq> API_KEY e \<Longrightarrow>
   verifyApiKey e rq = Some (Sent (Num 403) (Obj [(''error'', Str ''Unauthorized: Invalid API key'')]))"
  by (auto simp: verifyApiKey_def Let_def)

section \<open>The access guard\<close>

text \<open>
  Claim C1.  A request to \<open>POST /api/login\<close> or \<open>POST /api/odoo\<close> whose \<open>X-API-Key\<close>
  header is absent or differs from the configured secret is answered 403 with an error
  body; no upstream call is made and the session variable is not touched.  This holds
  for the routes of both files.
\<close>

theorem invalid_key_rejected_403:
  assumes "x_api_key rq = None \<or> x_api_key rq \<noteq> API_KEY e"
  shows "api_login_server e upstream st rq =
           \<lparr>reply = Sent (Num 403) (Obj [(''error'', Str ''Unauthorized: Invalid API key'')]),
            calls = [], store = st\<rparr>
       \<and> api_odoo_server e upstream st rq =
           \<lparr>reply = Sent (Num 403) (Obj [(''error'', Str ''Unauthorized: Invalid API key'')]),
            calls = [], store = st\<rparr>
       \<and> api_login_part000 e upstream rnd st rq =
           \<lparr>reply = Sent (Num 403) (Obj [(''error'', Str ''Unauthorized: Invalid API key'')]),
            calls = [], store = st\<rparr>
       \<and> api_odoo_part000 e upstream rnd st rq =
           \<lparr>reply = Sent (Num 403) (Obj [(''error'', Str ''Unauthorized: Invalid API key'')]),
            calls = [], store = st\<rparr>"
  using verifyApiKey_reject [OF assms]
  by (simp add: api_login_server_def api_odoo_server_def api_login_part000_def api_odoo_part000_def)

theorem invalid_key_rejected_403_witness:
  "(x_api_key \<lparr>x_api_key = Some ''wrong'', body = Obj []\<rparr> = None
     \<or> x_api_key \<lparr>x_api_key = Some ''wrong'', body = Obj []\<rparr>
         \<noteq> API_KEY \<lparr>API_KEY = Some ''secret'', ODOO_URL = None\<rparr>)
   \<and> calls (api_login_server \<lparr>API_KEY = Some ''secret'', ODOO_URL = None\<rparr>
              (\<lambda>r. Failed []) Null \<lparr>x_api_key = Some ''wrong'', body = Obj []\<rparr>) = []
   \<and> reply (api_odoo_part000 \<lparr>API_KEY = Some ''secret'', ODOO_URL = None\<rparr>
              (\<lambda>r. Failed []) 5 (Str ''sid=1'') \<lparr>x_api_key = Some ''wrong'', body = Obj []\<rparr>)
       = Sent (Num 403) (Obj [(''error'', Str ''Unauthorized: Invalid API key'')])"
  using invalid_key_rejected_403
    [of "\<lparr>x_api_key = Some ''wrong'', body = Obj []\<rparr>"
        "\<lparr>API_KEY = Some ''secret'', ODOO_URL = None\<rparr>" "\<lambda>r. Failed []" Null 5]
    invalid_key_rejected_403
    [of "\<lparr>x_api_key = Some ''wrong'', body = Obj []\<rparr>"
        "\<lparr>API_KEY = Some ''secret'', ODOO_URL = None\<rparr>" "\<lambda>r. Failed []" "Str ''sid=1''" 5]
  by simp

text \<open>
  Claim C10.  When \<open>API_KEY\<close> is not set, every request to the four routes is answered
  403, whatever key the caller presents, an absent or empty one included; no upstream
  call is made.
\<close>

theorem unset_secret_rejects_every_key:
  "api_login_server (e\<lparr>API_KEY := None\<rparr>) upstream st rq =
           \<lparr>reply = Sent (Num 403) (Obj [(''error'', Str ''Unauthorized: Invalid API key'')]),
            calls = [], store = st\<rparr>
       \<and> api_odoo_server (e\<lparr>API_KEY := None\<rparr>) upstream st rq =
           \<lparr>reply = Sent (Num 403) (Obj [(''error'', Str ''Unauthorized: Invalid API key'')]),
            calls = [], store = st\<rparr>
       \<and> api_login_part000 (e\<lparr>API_KEY := None\<rparr>) upstream rnd st rq =
           \<lparr>reply = Sent (Num 403) (Obj [(''error'', Str ''Unauthorized: Invalid API key'')]),
            calls = [], store = st\<rparr>
       \<and> api_odoo_part000 (e\<lparr>API_KEY := None\<rparr>) upstream rnd st rq =
           \<lparr>reply = Sent (Num 403) (Obj [(''error'', Str ''Unauthorized: Invalid API key'')]),
            calls = [], store = st\<rparr>"
proof -
  have "x_api_key rq = None \<or> x_api_key rq \<noteq> API_KEY (e\<lparr>API_KEY := None\<rparr>)"
    by (cases "x_api_key rq") simp_all
  from verifyApiKey_reject [OF this] show ?thesis
    by (simp add: api_login_server_def api_odoo_server_def api_login_part000_def api_odoo_part000_def)
qed

theorem unset_secret_rejects_every_key_witness:
  "reply (api_odoo_server \<lparr>API_KEY = None, ODOO_URL = Some ''https://odoo.example''\<rparr>
            (\<lambda>r. Http 200 None (Obj [])) (Str ''session_id=abc'')
            \<lparr>x_api_key = Some [], body = Obj [(''odooConfig'', Obj [(''url'', Str ''https://odoo.example'')])]\<rparr>)
     = Sent (Num 403) (Obj [(''error'', Str ''Unauthorized: Invalid API key'')])
   \<and> calls (api_login_part000 \<lparr>API_KEY = None, ODOO_URL = Some ''https://odoo.example''\<rparr>
            (\<lambda>r. Http 200 None (Obj [])) 7 Null
            \<lparr>x_api_key = Some ''undefined'', body = Obj []\<rparr>) = []"
  using unset_secret_rejects_every_key
    [of "\<lparr>API_KEY = None, ODOO_URL = Some ''https://odoo.example''\<rparr>"
        "\<lambda>r. Http 200 None (Obj [])" "Str ''session_id=abc''"
        "\<lparr>x_api_key = Some [], body = Obj [(''odooConfig'', Obj [(''url'', Str ''https://odoo.example'')])]\<rparr>" 7]
    unset_secret_rejects_every_key
    [of "\<lparr>API_KEY = None, ODOO_URL = Some ''https://odoo.example''\<rparr>"
        "\<lambda>r. Http 200 None (Obj [])" Null
        "\<lparr>x_api_key = Some ''undefined'', body = Obj []\<rparr>" 7]
  by simp

section \<open>Login\<close>

text \<open>
  Claim C2, amended.  For a login request with a valid key and a complete configuration,
  if the upstream answers with a 2xx status and a body whose \<open>result.uid\<close> is truthy
  (not \<open>0\<close>, \<open>false\<close>, \<open>null\<close> or the empty string), the caller receives status 200 and
  the body \<open>{ result: uid }\<close>.
\<close>

theorem login_returns_uid:
  "(verifyApiKey e rq = None \<and> complete_config_server (body rq)
      \<and> upstream (login_request_server (body rq)) = Http s sc d \<and> 200 \<le> s \<and> s < 300
      \<and> truthy (field_of (field_of d ''result'') ''uid'')
    \<longrightarrow> reply (api_login_server e upstream st rq)
          = Sent (Num 200) (Obj [(''result'', field_of (field_of d ''result'') ''uid'')]))
   \<and> (verifyApiKey e rq = None \<and> complete_config_part000 (body rq)
      \<and> upstream (login_request_part000 e rnd (body rq)) = Http s sc d \<and> 200 \<le> s \<and> s < 300
      \<and> truthy (field_of (field_of d ''result'') ''uid'')
    \<longrightarrow> reply (api_login_part000 e upstream rnd st rq)
          = Sent (Num 200) (Obj [(''result'', field_of (field_of d ''result'') ''uid'')]))"
  by (simp add: login_resolved_server login_resolved_part000
      login_result_server_uid login_result_part000_uid)

theorem login_returns_uid_witness:
  "verifyApiKey sample_env sample_login_server = None
   \<and> complete_config_server (body sample_login_server)
   \<and> truthy (field_of (field_of (Obj [(''result'', Obj [(''uid'', Num 7)])]) ''result'') ''uid'')
   \<and> reply (api_login_server sample_env login_ok Null sample_login_server)
       = Sent (Num 200) (Obj [(''result'', Num 7)])
   \<and> verifyApiKey sample_env sample_login_part000 = None
   \<and> complete_config_part000 (body sample_login_part000)
   \<and> reply (api_login_part000 sample_env login_ok 5 Null sample_login_part000)
       = Sent (Num 200) (Obj [(''result'', Num 7)])"
proof -
  have h: "verifyApiKey sample_env sample_login_server = None"
    "complete_config_server (body sample_login_server)"
    "truthy (field_of (field_of (Obj [(''result'', Obj [(''uid'', Num 7)])]) ''result'') ''uid'')"
    "verifyApiKey sample_env sample_login_part000 = None"
    "complete_config_part000 (body sample_login_part000)"
    by (simp_all add: verifyApiKey_def complete_config_server_def complete_config_part000_def
        field_of_def)
  have f: "field_of (field_of (Obj [(''result'', Obj [(''uid'', Num 7)])]) ''result'') ''uid'' = Num 7"
    by (simp add: field_of_def)
  from h f login_returns_uid
    [where e = sample_env and rq = sample_login_server and upstream = login_ok and s = 200
       and sc = "Some [''session_id=abc; Path=/'', ''lang=en; HttpOnly'']"
       and d = "Obj [(''result'', Obj [(''uid'', Num 7)])]" and st = Null]
    login_returns_uid
    [where e = sample_env and rq = sample_login_part000 and upstream = login_ok and s = 200
       and sc = "Some [''session_id=abc; Path=/'', ''lang=en; HttpOnly'']"
       and d = "Obj [(''result'', Obj [(''uid'', Num 7)])]" and st = Null and rnd = 5]
  show ?thesis by simp
qed

text \<open>
  As first stated the claim fails: with \<open>result.uid = 0\<close> the guard of \<open>server.js\<close>
  line 100 sends 500, and a body carrying a uid under status 500 goes to the \<open>catch\<close>
  block.
\<close>

theorem login_falsy_uid_counterexample:
  "reply (api_login_server \<lparr>API_KEY = Some ''k'', ODOO_URL = None\<rparr>
            (\<lambda>r. Http 200 None (Obj [(''result'', Obj [(''uid'', Num 0)])])) Null
            \<lparr>x_api_key = Some ''k'',
             body = Obj [(''odooConfig'', Obj [(''url'', Str ''https://odoo.example''), (''db'', Str ''d''),
                                              (''username'', Str ''u''), (''password'', Str ''p'')])]\<rparr>)
     = Sent (Num 500) (Obj [(''error'', Str ''Unexpected Odoo login response'')])
   \<and> reply (api_login_server \<lparr>API_KEY = Some ''k'', ODOO_URL = None\<rparr>
            (\<lambda>r. Http 500 None (Obj [(''result'', Obj [(''uid'', Num 7)])])) Null
            \<lparr>x_api_key = Some ''k'',
             body = Obj [(''odooConfig'', Obj [(''url'', Str ''https://odoo.example''), (''db'', Str ''d''),
                                              (''username'', Str ''u''), (''password'', Str ''p'')])]\<rparr>)
     = Sent (Num 500) (Obj [(''error'', Str ''Odoo login API error'')])
   \<and> Sent (Num 500) (Obj [(''error'', Str ''Unexpected Odoo login response'')])
       \<noteq> Sent (Num 200) (Obj [(''result'', Num 0)])
   \<and> Sent (Num 500) (Obj [(''error'', Str ''Odoo login API error'')])
       \<noteq> Sent (Num 200) (Obj [(''result'', Num 7)])"
  by (simp add: eval_defs)

text \<open>
  Claim C3, amended.  After a login whose upstream answer is a 2xx response with a
  \<open>Set-Cookie\<close> header, \<open>server.js\<close> holds the normalisation of the header (each cookie
  cut at its first \<open>;\<close>, the pairs joined with \<open>"; "\<close>), while \<open>part_000\<close> holds the
  header as received, attributes included; either replaces the prior value.
\<close>

theorem login_stores_cookie:
  "(verifyApiKey e rq = None \<and> complete_config_server (body rq)
      \<and> upstream (login_request_server (body rq)) = Http s (Some cookies) d \<and> 200 \<le> s \<and> s < 300
    \<longrightarrow> store (api_login_server e upstream st rq) = Str (normalize_spec cookies))
   \<and> (verifyApiKey e rq = None \<and> complete_config_part000 (body rq)
      \<and> upstream (login_request_part000 e rnd (body rq)) = Http s (Some cookies) d
      \<and> 200 \<le> s \<and> s < 300
    \<longrightarrow> store (api_login_part000 e upstream rnd st rq) = Arr (map Str cookies))"
  by (simp add: login_resolved_server login_resolved_part000 capture_server_normalize
      capture_part000_def)

theorem login_stores_cookie_witness:
  "verifyApiKey sample_env sample_login_server = None
   \<and> complete_config_server (body sample_login_server)
   \<and> store (api_login_server sample_env login_ok (Str ''session_id=old'') sample_login_server)
       = Str ''session_id=abc; lang=en''
   \<and> verifyApiKey sample_env sample_login_part000 = None
   \<and> complete_config_part000 (body sample_login_part000)
   \<and> store (api_login_part000 sample_env login_ok 5 (Arr [Str ''session_id=old'']) sample_login_part000)
       = Arr [Str ''session_id=abc; Path=/'', Str ''lang=en; HttpOnly'']"
proof -
  have h: "verifyApiKey sample_env sample_login_server = None"
    "complete_config_server (body sample_login_server)"
    "verifyApiKey sample_env sample_login_part000 = None"
    "complete_config_part000 (body sample_login_part000)"
    by (simp_all add: verifyApiKey_def complete_config_server_def complete_config_part000_def
        field_of_def)
  have n: "normalize_spec [''session_id=abc; Path=/'', ''lang=en; HttpOnly''] = ''session_id=abc; lang=en''"
    by (simp add: normalize_spec_def)
  from h n login_stores_cookie
    [where e = sample_env and rq = sample_login_server and upstream = login_ok and s = 200
       and cookies = "[''session_id=abc; Path=/'', ''lang=en; HttpOnly'']"
       and d = "Obj [(''result'', Obj [(''uid'', Num 7)])]" and st = "Str ''session_id=old''"]
    login_stores_cookie
    [where e = sample_env and rq = sample_login_part000 and upstream = login_ok and s = 200
       and cookies = "[''session_id=abc; Path=/'', ''lang=en; HttpOnly'']"
       and d = "Obj [(''result'', Obj [(''uid'', Num 7)])]" and st = "Arr [Str ''session_id=old'']"
       and rnd = 5]
  show ?thesis by simp
qed

text \<open>
  In \<open>part_000\<close> the stored token is not the normalised header; and a \<open>Set-Cookie\<close>
  header on a non-2xx response is not captured at all.
\<close>

theorem raw_cookie_stored_counterexample:
  "store (api_login_part000 \<lparr>API_KEY = Some ''k'', ODOO_URL = Some ''https://odoo.example''\<rparr>
            (\<lambda>r. Http 200 (Some [''session_id=abc; Path=/'']) (Obj [(''result'', Obj [(''uid'', Num 7)])]))
            5 Null
            \<lparr>x_api_key = Some ''k'',
             body = Obj [(''odooConfig'', Obj [(''db'', Str ''d''), (''username'', Str ''u''),
                                              (''password'', Str ''p'')])]\<rparr>)
     = Arr [Str ''session_id=abc; Path=/'']
   \<and> normalize_spec [''session_id=abc; Path=/''] = ''session_id=abc''
   \<and> Arr [Str ''session_id=abc; Path=/''] \<noteq> Str (normalize_spec [''session_id=abc; Path=/''])
   \<and> store (api_login_server sample_env
               (\<lambda>r. Http 401 (Some [''session_id=abc; Path=/'']) (Obj [(''error'', Str ''denied'')]))
               (Str ''session_id=old'') sample_login_server)
     = Str ''session_id=old''"
  by (simp add: eval_defs)

text \<open>
  Claim C4, amended.  For a login whose upstream answer is a 2xx response not carrying
  a user identifier, the session variable is left unchanged when the answer has no
  \<open>Set-Cookie\<close> header, and is overwritten with the token taken from the header when
  it has one: the capture comes before the test of the body.
\<close>

theorem store_follows_set_cookie:
  "(verifyApiKey e rq = None \<and> complete_config_server (body rq)
      \<and> upstream (login_request_server (body rq)) = Http s sc d \<and> 200 \<le> s \<and> s < 300
      \<and> \<not> truthy (field_of (field_of d ''result'') ''uid'')
    \<longrightarrow> store (api_login_server e upstream st rq)
          = (case sc of None \<Rightarrow> st | Some cookies \<Rightarrow> Str (js_join ''; '' (map first_piece cookies))))
   \<and> (verifyApiKey e rq = None \<and> complete_config_part000 (body rq)
      \<and> upstream (login_request_part000 e rnd (body rq)) = Http s sc d \<and> 200 \<le> s \<and> s < 300
      \<and> \<not> truthy (field_of (field_of d ''result'') ''uid'')
    \<longrightarrow> store (api_login_part000 e upstream rnd st rq)
          = (case sc of None \<Rightarrow> st | Some cookies \<Rightarrow> Arr (map Str cookies)))"
  by (simp add: login_resolved_server login_resolved_part000 capture_server_def
      capture_part000_def)

theorem store_follows_set_cookie_witness:
  "verifyApiKey sample_env sample_login_server = None
   \<and> complete_config_server (body sample_login_server)
   \<and> \<not> truthy (field_of (field_of (Obj [(''error'', Obj [(''message'', Str ''Access Denied'')])])
                    ''result'') ''uid'')
   \<and> store (api_login_server sample_env login_denied (Str ''session_id=old'') sample_login_server)
       = Str ''session_id=old''
   \<and> verifyApiKey sample_env sample_login_part000 = None
   \<and> complete_config_part000 (body sample_login_part000)
   \<and> store (api_login_part000 sample_env login_denied 5 (Arr [Str ''session_id=old''])
              sample_login_part000)
       = Arr [Str ''session_id=old'']"
proof -
  have h: "verifyApiKey sample_env sample_login_server = None"
    "complete_config_server (body sample_login_server)"
    "\<not> truthy (field_of (field_of (Obj [(''error'', Obj [(''message'', Str ''Access Denied'')])])
                    ''result'') ''uid'')"
    "verifyApiKey sample_env sample_login_part000 = None"
    "complete_config_part000 (body sample_login_part000)"
    by (simp_all add: verifyApiKey_def complete_config_server_def complete_config_part000_def
        field_of_def)
  from h store_follows_set_cookie
    [where e = sample_env and rq = sample_login_server and upstream = login_denied and s = 200
       and sc = None and d = "Obj [(''error'', Obj [(''message'', Str ''Access Denied'')])]"
       and st = "Str ''session_id=old''"]
    store_follows_set_cookie
    [where e = sample_env and rq = sample_login_part000 and upstream = login_denied and s = 200
       and sc = None and d = "Obj [(''error'', Obj [(''message'', Str ''Access Denied'')])]"
       and st = "Arr [Str ''session_id=old'']" and rnd = 5]
  show ?thesis by simp
qed

text \<open>
  An authentication-error envelope that comes with a \<open>Set-Cookie\<close> header replaces
  the stored token, although the login is answered 401.
\<close>

theorem failed_login_overwrites_counterexample:
  "api_login_server \<lparr>API_KEY = Some ''k'', ODOO_URL = None\<rparr>
      (\<lambda>r. Http 200 (Some [''session_id=new; Path=/''])
              (Obj [(''error'', Obj [(''message'', Str ''Access Denied'')])]))
      (Str ''session_id=old'')
      \<lparr>x_api_key = Some ''k'',
       body = Obj [(''odooConfig'', Obj [(''url'', Str ''https://odoo.example''), (''db'', Str ''d''),
                                        (''username'', Str ''u''), (''password'', Str ''bad'')])]\<rparr>
   = \<lparr>reply = Sent (Num 401) (Obj [(''error'', Str ''Access Denied'')]),
      calls = [\<lparr>url_base = Str ''https://odoo.example'', url_path = ''/web/session/authenticate'',
                payload = Obj [(''jsonrpc'', Str ''2.0''), (''method'', Str ''call''),
                               (''params'', Obj [(''db'', Str ''d''), (''login'', Str ''u''),
                                                 (''password'', Str ''bad'')]),
                               (''id'', Num 1)],
                headers = [(''Content-Type'', Str ''application/json'')],
                with_credentials = Some True, timeout = 10000\<rparr>],
      store = Str ''session_id=new''\<rparr>
   \<and> Str ''session_id=new'' \<noteq> Str ''session_id=old''"
  by (simp add: eval_defs)

text \<open>
  Claim C8, amended.  The id of the login envelope is the constant \<open>1\<close> in \<open>server.js\<close>,
  whatever the caller supplies; in \<open>part_000\<close> it is the caller's id when that id is
  truthy, and the generated value otherwise.
\<close>

theorem login_envelope_id:
  "(verifyApiKey e rq = None \<and> complete_config_server (body rq)
    \<longrightarrow> map (\<lambda>r. field_of (payload r) ''id'') (calls (api_login_server e upstream st rq))
          = [Num 1])
   \<and> (verifyApiKey e rq = None \<and> complete_config_part000 (body rq)
    \<longrightarrow> map (\<lambda>r. field_of (payload r) ''id'') (calls (api_login_part000 e upstream rnd st rq))
          = [if truthy (field_of (body rq) ''id'') then field_of (body rq) ''id'' else Num rnd])"
  by (simp add: login_calls_server login_calls_part000 login_request_server_def
      login_request_part000_def authPayload_def envelope_id_def js_or_def Let_def)
    (simp add: field_of_def)

theorem login_envelope_id_witness:
  "verifyApiKey sample_env sample_login_server = None
   \<and> complete_config_server (body sample_login_server)
   \<and> map (\<lambda>r. field_of (payload r) ''id'')
       (calls (api_login_server sample_env login_ok Null sample_login_server)) = [Num 1]
   \<and> verifyApiKey sample_env sample_login_part000 = None
   \<and> complete_config_part000 (body sample_login_part000)
   \<and> map (\<lambda>r. field_of (payload r) ''id'')
       (calls (api_login_part000 sample_env login_ok 5 Null sample_login_part000)) = [Num 9]"
proof -
  have h: "verifyApiKey sample_env sample_login_server = None"
    "complete_config_server (body sample_login_server)"
    "verifyApiKey sample_env sample_login_part000 = None"
    "complete_config_part000 (body sample_login_part000)"
    by (simp_all add: verifyApiKey_def complete_config_server_def complete_config_part000_def
        field_of_def)
  have i: "field_of (body sample_login_part000) ''id'' = Num 9"
    by (simp add: field_of_def)
  from h i login_envelope_id
    [where e = sample_env and rq = sample_login_server and upstream = login_ok and st = Null]
    login_envelope_id
    [where e = sample_env and rq = sample_login_part000 and upstream = login_ok and st = Null
       and rnd = 5]
  show ?thesis by simp
qed

text \<open>
  \<open>server.js\<close> sends id \<open>1\<close> for a caller's id \<open>42\<close>; \<open>part_000\<close> replaces a caller's
  id \<open>0\<close> by the generated value.
\<close>

theorem caller_id_ignored_counterexample:
  "map (\<lambda>r. field_of (payload r) ''id'')
     (calls (api_login_server \<lparr>API_KEY = Some ''k'', ODOO_URL = None\<rparr>
        (\<lambda>r. Http 200 None (Obj [(''result'', Obj [(''uid'', Num 7)])])) Null
        \<lparr>x_api_key = Some ''k'',
         body = Obj [(''odooConfig'', Obj [(''url'', Str ''https://odoo.example''), (''db'', Str ''d''),
                                          (''username'', Str ''u''), (''password'', Str ''p'')]),
                     (''id'', Num 42)]\<rparr>))
   = [Num 1]
   \<and> map (\<lambda>r. field_of (payload r) ''id'')
     (calls (api_login_part000 \<lparr>API_KEY = Some ''k'', ODOO_URL = Some ''https://odoo.example''\<rparr>
        (\<lambda>r. Http 200 None (Obj [(''result'', Obj [(''uid'', Num 7)])])) 417 Null
        \<lparr>x_api_key = Some ''k'',
         body = Obj [(''odooConfig'', Obj [(''db'', Str ''d''),
                                          (''username'', Str ''u''), (''password'', Str ''p'')]),
                     (''id'', Num 0)]\<rparr>))
   = [Num 417]
   \<and> [Num 1] \<noteq> [Num 42] \<and> [Num 417] \<noteq> [Num 0]"
  by (simp add: eval_defs)

text \<open>
  Claim C9, amended.  A login request with a valid key and a body whose configuration
  lacks a required field is answered 400 without an upstream call; the required fields
  are url, db, username and password in \<open>server.js\<close>, and db, username and password in
  \<open>part_000\<close>, where the target address is not a field of the request.
\<close>

theorem missing_config_rejected_400:
  "(verifyApiKey e rq = None \<and> body rq \<noteq> Undefined \<and> body rq \<noteq> Null
      \<and> \<not> complete_config_server (body rq)
    \<longrightarrow> api_login_server e upstream st rq =
          \<lparr>reply = Sent (Num 400)
                     (Obj [(''error'', Str ''Missing Odoo configuration (url, db, username, password)'')]),
           calls = [], store = st\<rparr>)
   \<and> (verifyApiKey e rq = None \<and> body rq \<noteq> Undefined \<and> body rq \<noteq> Null
      \<and> \<not> complete_config_part000 (body rq)
    \<longrightarrow> api_login_part000 e upstream rnd st rq =
          \<lparr>reply = Sent (Num 400) (Obj [(''error'', Str ''Missing required fields for Odoo login'')]),
           calls = [], store = st\<rparr>)"
  by (simp add: api_login_server_def login_handler_server_def config_missing_server_eq
      api_login_part000_def login_handler_part000_def config_missing_part000_eq)

theorem missing_config_rejected_400_witness:
  "verifyApiKey sample_env \<lparr>x_api_key = Some ''k'',
        body = Obj [(''odooConfig'', Obj [(''url'', Str ''https://odoo.example''),
                                         (''username'', Str ''u''), (''password'', Str ''p'')])]\<rparr> = None
   \<and> \<not> complete_config_server
         (Obj [(''odooConfig'', Obj [(''url'', Str ''https://odoo.example''),
                                    (''username'', Str ''u''), (''password'', Str ''p'')])])
   \<and> api_login_server sample_env login_ok Null
        \<lparr>x_api_key = Some ''k'',
         body = Obj [(''odooConfig'', Obj [(''url'', Str ''https://odoo.example''),
                                          (''username'', Str ''u''), (''password'', Str ''p'')])]\<rparr>
       = \<lparr>reply = Sent (Num 400)
                     (Obj [(''error'', Str ''Missing Odoo configuration (url, db, username, password)'')]),
           calls = [], store = Null\<rparr>
   \<and> \<not> complete_config_part000
         (Obj [(''odooConfig'', Obj [(''url'', Str ''https://odoo.example''),
                                    (''username'', Str ''u''), (''password'', Str ''p'')])])
   \<and> api_login_part000 sample_env login_ok 5 Null
        \<lparr>x_api_key = Some ''k'',
         body = Obj [(''odooConfig'', Obj [(''url'', Str ''https://odoo.example''),
                                          (''username'', Str ''u''), (''password'', Str ''p'')])]\<rparr>
       = \<lparr>reply = Sent (Num 400) (Obj [(''error'', Str ''Missing required fields for Odoo login'')]),
           calls = [], store = Null\<rparr>"
proof -
  have h: "verifyApiKey sample_env \<lparr>x_api_key = Some ''k'',
        body = Obj [(''odooConfig'', Obj [(''url'', Str ''https://odoo.example''),
                                         (''username'', Str ''u''), (''password'', Str ''p'')])]\<rparr> = None"
    "\<not> complete_config_server
         (Obj [(''odooConfig'', Obj [(''url'', Str ''https://odoo.example''),
                                    (''username'', Str ''u''), (''password'', Str ''p'')])])"
    "\<not> complete_config_part000
         (Obj [(''odooConfig'', Obj [(''url'', Str ''https://odoo.example''),
                                    (''username'', Str ''u''), (''password'', Str ''p'')])])"
    by (simp_all add: verifyApiKey_def complete_config_server_def complete_config_part000_def
        field_of_def)
  from h missing_config_rejected_400
    [where e = sample_env and upstream = login_ok and st = Null and rnd = 5
       and rq = "\<lparr>x_api_key = Some ''k'',
        body = Obj [(''odooConfig'', Obj [(''url'', Str ''https://odoo.example''),
                                         (''username'', Str ''u''), (''password'', Str ''p'')])]\<rparr>"]
  show ?thesis by simp
qed

text \<open>
  \<open>part_000\<close> calls the upstream for a request without a target address, and also
  when \<open>ODOO_URL\<close> is not set.
\<close>

theorem address_not_required_counterexample:
  "api_login_part000 \<lparr>API_KEY = Some ''k'', ODOO_URL = Some ''https://odoo.example''\<rparr>
      (\<lambda>r. Http 200 None (Obj [(''result'', Obj [(''uid'', Num 7)])])) 5 Null
      \<lparr>x_api_key = Some ''k'',
       body = Obj [(''odooConfig'', Obj [(''db'', Str ''d''),
                                        (''username'', Str ''u''), (''password'', Str ''p'')])]\<rparr>
   = \<lparr>reply = Sent (Num 200) (Obj [(''result'', Num 7)]),
      calls = [\<lparr>url_base = Str ''https://odoo.example'', url_path = ''/web/session/authenticate'',
                payload = Obj [(''jsonrpc'', Str ''2.0''), (''method'', Str ''call''),
                               (''params'', Obj [(''db'', Str ''d''), (''login'', Str ''u''),
                                                 (''password'', Str ''p'')]),
                               (''id'', Num 5)],
                headers = [(''Content-Type'', Str ''application/json'')],
                with_credentials = None, timeout = 10000\<rparr>],
      store = Null\<rparr>
   \<and> api_login_part000 \<lparr>API_KEY = Some ''k'', ODOO_URL = None\<rparr>
      (\<lambda>r. Failed ''Invalid URL'') 5 Null
      \<lparr>x_api_key = Some ''k'',
       body = Obj [(''odooConfig'', Obj [(''db'', Str ''d''),
                                        (''username'', Str ''u''), (''password'', Str ''p'')])]\<rparr>
   = \<lparr>reply = Sent (Num 500) (Obj [(''error'', Str ''Invalid URL'')]),
      calls = [\<lparr>url_base = Undefined, url_path = ''/web/session/authenticate'',
                payload = Obj [(''jsonrpc'', Str ''2.0''), (''method'', Str ''call''),
                               (''params'', Obj [(''db'', Str ''d''), (''login'', Str ''u''),
                                                 (''password'', Str ''p'')]),
                               (''id'', Num 5)],
                headers = [(''Content-Type'', Str ''application/json'')],
                with_credentials = None, timeout = 10000\<rparr>],
      store = Null\<rparr>"
  by (simp add: eval_defs)

text \<open>
  Claim C6.  A login whose upstream call is rejected with status 500 and the JSON body
  \<open>null\<close>: the \<open>catch\<close> block reads \<open>error.response.data.error\<close> and throws, so the
  handler sends no reply.  The session variable keeps its value and the upstream is
  called once.
\<close>

theorem login_null_error_body_throws:
  "api_login_server \<lparr>API_KEY = Some ''k'', ODOO_URL = None\<rparr>
      (\<lambda>r. Http 500 None Null) (Str ''session_id=old'')
      \<lparr>x_api_key = Some ''k'',
       body = Obj [(''odooConfig'', Obj [(''url'', Str ''https://odoo.example''), (''db'', Str ''d''),
                                        (''username'', Str ''u''), (''password'', Str ''p'')])]\<rparr>
   = \<lparr>reply = Threw (TypeError (cannot_read Null ''error'')),
      calls = [login_request_server
                 (Obj [(''odooConfig'', Obj [(''url'', Str ''https://odoo.example''), (''db'', Str ''d''),
                                            (''username'', Str ''u''), (''password'', Str ''p'')])])],
      store = Str ''session_id=old''\<rparr>
   \<and> reply (api_login_part000 \<lparr>API_KEY = Some ''k'', ODOO_URL = Some ''https://odoo.example''\<rparr>
      (\<lambda>r. Http 500 None Null) 5 (Str ''session_id=old'')
      \<lparr>x_api_key = Some ''k'',
       body = Obj [(''odooConfig'', Obj [(''db'', Str ''d''),
                                        (''username'', Str ''u''), (''password'', Str ''p'')])]\<rparr>)
   = Threw (TypeError (cannot_read Null ''error''))"
  by (simp add: eval_defs)

section \<open>Forwarded calls\<close>



text \<open>
  What the two files do with a call made while the session variable holds no token.
  \<open>server.js\<close> answers 401 and contacts nobody.  \<open>part_000\<close>, given \<open>ODOO_URL\<close> and a
  uid, makes one upstream call, whose every part is given below, with no \<open>Cookie\<close>
  header; it leaves the session variable as it is and answers a 2xx body as it is at
  status 200, a non-2xx response whose body is not \<open>null\<close> under the upstream's
  status, and no response as 500.
\<close>

lemma no_session_server:
  assumes "verifyApiKey e rq = None" "\<not> truthy st"
  shows "api_odoo_server e upstream st rq =
          \<lparr>reply = Sent (Num 401)
                     (Obj [(''error'', Str ''Unauthorized: No active Odoo session. Please log in.'')]),
           calls = [], store = st\<rparr>"
  using assms by (simp add: api_odoo_server_def odoo_handler_server_def)

lemma no_session_request_part000:
  assumes "\<not> truthy st"
  shows "odoo_request_part000 e rnd st b =
           \<lparr>url_base = odoo_url e,
            url_path = ''/web/dataset/call_kw'',
            payload =
              Obj [(''jsonrpc'', Str ''2.0''),
                   (''method'', Str ''call''),
                   (''params'', Obj [(''model'', field_of b ''model''),
                                     (''method'', field_of b ''method''),
                                     (''args'', field_of b ''args''),
                                     (''kwargs'', field_of b ''kwargs'')]),
                   (''id'', if truthy (field_of b ''id'') then field_of b ''id'' else Num rnd)],
            headers = [(''Content-Type'', Str ''application/json'')],
            with_credentials = None,
            timeout = 10000\<rparr>"
  using assms
  by (simp add: odoo_request_part000_def odooPayload_def odooHeaders_def envelope_id_def
      js_or_def)

lemma no_session_part000:
  assumes a: "verifyApiKey e rq = None" "\<not> truthy st"
    "truthy (odoo_url e)" "truthy (field_of (body rq) ''uid'')"
  shows "calls (api_odoo_part000 e upstream rnd st rq) = [odoo_request_part000 e rnd st (body rq)]"
    and "store (api_odoo_part000 e upstream rnd st rq) = st"
    and "upstream (odoo_request_part000 e rnd st (body rq)) = Http s sc d
           \<Longrightarrow> 200 \<le> s \<Longrightarrow> s < 300
           \<Longrightarrow> reply (api_odoo_part000 e upstream rnd st rq) = Sent (Num 200) d"
    and "upstream (odoo_request_part000 e rnd st (body rq)) = Http s sc d
           \<Longrightarrow> \<not> (200 \<le> s \<and> s < 300) \<Longrightarrow> d \<noteq> Null \<Longrightarrow> d \<noteq> Undefined
           \<Longrightarrow> reply (api_odoo_part000 e upstream rnd st rq)
                 = Sent (Num (int s)) (Obj [(''error'', js_or (field_of d ''error'') (Str ''Odoo API error''))])"
    and "upstream (odoo_request_part000 e rnd st (body rq)) = Failed m
           \<Longrightarrow> reply (api_odoo_part000 e upstream rnd st rq)
                 = Sent (Num 500)
                     (Obj [(''error'', Str (if m = [] then ''Internal Server Error during Odoo API call''
                                            else m))])"
proof -
  have b: "destructure_body (body rq) = Inr (body rq)"
    using a(4) truthy_field_of_parent truthy_not_nullish by (auto simp: destructure_body_def)
  from a b show c: "calls (api_odoo_part000 e upstream rnd st rq)
                     = [odoo_request_part000 e rnd st (body rq)]"
    by (simp add: api_odoo_part000_def odoo_handler_part000_def Let_def split: sum.splits)
  from a b show "store (api_odoo_part000 e upstream rnd st rq) = st"
    by (simp add: api_odoo_part000_def odoo_handler_part000_def Let_def split: sum.splits)
  note r = api_odoo_part000_called [OF c]
  {
    assume "upstream (odoo_request_part000 e rnd st (body rq)) = Http s sc d"
      "200 \<le> s" "s < 300"
    then have "axios_post upstream (odoo_request_part000 e rnd st (body rq)) = Inr (Http s sc d)"
      by (simp add: axios_post_def)
    with r show "reply (api_odoo_part000 e upstream rnd st rq) = Sent (Num 200) d"
      by simp
  }
  {
    assume h: "upstream (odoo_request_part000 e rnd st (body rq)) = Http s sc d"
      "\<not> (200 \<le> s \<and> s < 300)" "d \<noteq> Null" "d \<noteq> Undefined"
    then have "axios_post upstream (odoo_request_part000 e rnd st (body rq))
                = Inl (AxiosBadStatus s d)"
      by (simp add: axios_post_def)
    with r h show "reply (api_odoo_part000 e upstream rnd st rq)
                 = Sent (Num (int s)) (Obj [(''error'', js_or (field_of d ''error'') (Str ''Odoo API error''))])"
      by (simp add: odoo_catch_part000_def catch_block_bad_status del: catch_block.simps)
  }
  {
    assume "upstream (odoo_request_part000 e rnd st (body rq)) = Failed m"
    then have "axios_post upstream (odoo_request_part000 e rnd st (body rq))
                = Inl (AxiosNoResponse m)"
      by (simp add: axios_post_def)
    with r show "reply (api_odoo_part000 e upstream rnd st rq)
                 = Sent (Num 500)
                     (Obj [(''error'', Str (if m = [] then ''Internal Server Error during Odoo API call''
                                            else m))])"
      by (simp add: odoo_catch_part000_def catch_block_no_response del: catch_block.simps)
  }
qed

text \<open>
  Claim C7.  A call made while the session variable holds no token, from which
  \<open>part_000\<close> withholds the \<open>Cookie\<close> header and which it forwards: when the upstream
  rejects it with status 500 and the JSON body \<open>null\<close>, the \<open>catch\<close> block reads
  \<open>error.response.data.error\<close> and throws, so the upstream's rejection is not
  surfaced and the handler sends no reply.
\<close>

theorem no_session_null_error_body_throws:
  "api_odoo_part000 \<lparr>API_KEY = Some ''k'', ODOO_URL = Some ''https://odoo.example''\<rparr>
      (\<lambda>r. Http 500 None Null) 5 Null
      \<lparr>x_api_key = Some ''k'',
       body = Obj [(''model'', Str ''res.partner''), (''method'', Str ''search_read''),
                   (''args'', Arr []), (''kwargs'', Obj []), (''uid'', Num 7)]\<rparr>
   = \<lparr>reply = Threw (TypeError (cannot_read Null ''error'')),
      calls = [\<lparr>url_base = Str ''https://odoo.example'', url_path = ''/web/dataset/call_kw'',
                payload = Obj [(''jsonrpc'', Str ''2.0''), (''method'', Str ''call''),
                               (''params'', Obj [(''model'', Str ''res.partner''),
                                                 (''method'', Str ''search_read''),
                                                 (''args'', Arr []), (''kwargs'', Obj [])]),
                               (''id'', Num 5)],
                headers = [(''Content-Type'', Str ''application/json'')],
                with_credentials = None, timeout = 10000\<rparr>],
      store = Null\<rparr>"
  by (simp add: eval_defs)

end
